theory Spec2Isabelle
  imports Main
begin

section \<open>The run table (RunTable.tsx): data model\<close>

text \<open>
  The GraphQL fragment \<^verbatim>\<open>RunTagsFragment\<close> is a key/value pair (its \<^verbatim>\<open>__typename\<close> is
  left out, as in the type of \<^verbatim>\<open>allTags\<close> on line 289). \<^verbatim>\<open>TagType\<close> (imported from
  \<^verbatim>\<open>./RunTag\<close>) is the same pair with the optional members \<^verbatim>\<open>pinned\<close> and \<^verbatim>\<open>link\<close>;
  an absent optional member is \<open>None\<close>.
\<close>

record RunTagsFragment =
  key :: string
  "value" :: string

record TagType = RunTagsFragment +
  pinned :: "bool option"
  link :: "string option"

record AssetKey =
  path :: "string list"

text \<open>
  The fields of \<^verbatim>\<open>RunTableRunFragment\<close> that the table reads. The field \<^verbatim>\<open>id\<close> is named
  \<open>id_run\<close> here. \<^verbatim>\<open>assetSelection\<close> is nullable. The record is polymorphic in how the tag
  array is held: as a list of values, or as an address into a store of arrays.
\<close>

record 't RunTableRunFragment =
  id_run :: string
  mode :: string
  pipelineName :: string
  assetSelection :: "AssetKey list option"
  hasTerminatePermission :: bool
  hasDeletePermission :: bool
  tags :: 't

type_synonym Run = "RunTagsFragment list RunTableRunFragment"

text \<open>
  \<^verbatim>\<open>DagsterTag\<close> (from \<^verbatim>\<open>./RunTag\<close>) and \<^verbatim>\<open>runsPathWithFilters\<close> (from
  \<^verbatim>\<open>./RunsFilterInput\<close>) are imported by RunTable.tsx and are parameters of the model: the
  two tag keys the table compares against, and the function from filter tokens to the
  path of the run list. The member \<^verbatim>\<open>value\<close> of a filter token is named \<open>token_value\<close>.
\<close>

record DagsterTag =
  Backfill :: string
  ParentRunId :: string

record RunFilterToken =
  token :: string
  token_value :: string

text \<open>
  What \<^verbatim>\<open>useRepositoryForRunWithoutSnapshot\<close> returns when it resolves a repository:
  \<^verbatim>\<open>repo.match.repository.pipelines\<close> lists the pipelines and jobs by name.
\<close>

record PipelineOrJob =
  name :: string
  isJob :: bool

record Repository =
  pipelines :: "PipelineOrJob list"

record RepoMatch =
  repository :: Repository

record DagsterRepoOption =
  match :: RepoMatch

text \<open>
  A value read back from browser storage: any JSON value, or \<^verbatim>\<open>undefined\<close> when the key
  is absent. The payload of a number plays no role in the table.
\<close>

datatype json =
    JUndefined
  | JNull
  | JBool bool
  | JNumber int
  | JString string
  | JArray "json list"
  | JObject "(string \<times> json) list"

section \<open>Array helpers of the language\<close>

text \<open>\<^verbatim>\<open>Array.prototype.indexOf\<close>: the first index holding the element, or \<open>-1\<close>.\<close>

fun indexOf_from :: "'a list \<Rightarrow> 'a \<Rightarrow> int \<Rightarrow> int" where
  "indexOf_from [] x i = - 1"
| "indexOf_from (y # ys) x i = (if y = x then i else indexOf_from ys x (i + 1))"

definition indexOf :: "'a list \<Rightarrow> 'a \<Rightarrow> int" where
  "indexOf xs x = indexOf_from xs x 0"

fun Array_isArray :: "json \<Rightarrow> bool" where
  "Array_isArray (JArray xs) = True"
| "Array_isArray v = False"

fun elements :: "json \<Rightarrow> json list" where
  "elements (JArray xs) = xs"
| "elements v = []"

section \<open>RunRow: the derived values of one row\<close>

text \<open>
  The dependency lists of the \<^verbatim>\<open>useMemo\<close> calls name everything their bodies read, so
  a memoised value is the value of its body and the definitions are the bodies.

  \<^verbatim>\<open>isJob\<close> (lines 263-270): the pipeline of that name in the resolved repository, and
  whether it is a job; \<open>False\<close> when no repository was resolved or no pipeline matches.
\<close>

definition RunRow_isJob :: "DagsterRepoOption option \<Rightarrow> string \<Rightarrow> bool" where
  "RunRow_isJob repo pipelineName' =
     (case repo of
        Some r \<Rightarrow>
          (let pipelinesAndJobs = pipelines (repository (match r))
           in case find (\<lambda>pipelineOrJob. name pipelineOrJob = pipelineName') pipelinesAndJobs of
                Some m \<Rightarrow> isJob m
              | None \<Rightarrow> False)
      | None \<Rightarrow> False)"

text \<open>
  The validator handed to \<^verbatim>\<open>useStateWithStorage('unpinned-tags', ...)\<close> (lines 281-286).
\<close>

definition unpinned_tags_validator :: "json \<Rightarrow> json list" where
  "unpinned_tags_validator v = (if Array_isArray v then elements v else [])"

text \<open>
  \<^verbatim>\<open>allTagsWithPinned\<close> (lines 288-300). The unpinned list holds whatever the validator
  let through, so a tag key is looked up in it as the string \<open>JString (key tag)\<close>.
\<close>

definition allTagsWithPinned :: "Run \<Rightarrow> bool \<Rightarrow> json list \<Rightarrow> TagType list" where
  "allTagsWithPinned run isJob' unpinnedTags =
     (let allTags = tags run;
          allTags =
            (if (isJob' \<and> mode run \<noteq> ''default'') \<or> \<not> isJob'
             then allTags @ [\<lparr>key = ''mode'', value = mode run\<rparr>]
             else allTags)
      in map (\<lambda>tag. \<lparr>key = key tag, value = value tag,
                       pinned = Some (indexOf unpinnedTags (JString (key tag)) = - 1),
                       link = None\<rparr>) allTags)"

text \<open>\<^verbatim>\<open>isReexecution\<close> (line 302).\<close>

definition isReexecution :: "DagsterTag \<Rightarrow> Run \<Rightarrow> bool" where
  "isReexecution dt run = list_ex (\<lambda>tag. key tag = ParentRunId dt) (tags run)"

text \<open>\<^verbatim>\<open>targetBackfill\<close> (line 304).\<close>

definition targetBackfill :: "DagsterTag \<Rightarrow> TagType list \<Rightarrow> TagType option" where
  "targetBackfill dt allTags = find (\<lambda>tag. key tag = Backfill dt) allTags"

text \<open>
  \<^verbatim>\<open>tagsToShow\<close> (lines 309-337). \<open>backfill_link\<close> is the conditional of lines 313-320;
  \<^verbatim>\<open>run.assetSelection?.length\<close> is truthy for a present, non-empty selection.
  \<open>forEach_tag\<close> is the loop of lines 327-335 over the set \<^verbatim>\<open>tagKeys\<close> and the array
  \<^verbatim>\<open>tags\<close> being built.
\<close>

definition backfill_link ::
    "DagsterTag \<Rightarrow> (RunFilterToken list \<Rightarrow> string) \<Rightarrow> 't RunTableRunFragment \<Rightarrow> TagType \<Rightarrow> string" where
  "backfill_link dt runsPathWithFilters run tb =
     (if (case assetSelection run of None \<Rightarrow> False | Some sel \<Rightarrow> length sel \<noteq> 0)
      then ''/overview/backfills/'' @ value tb
      else runsPathWithFilters
             [\<lparr>token = ''tag'', token_value = Backfill dt @ ''='' @ value tb\<rparr>])"

fun forEach_tag :: "string set \<Rightarrow> json list \<Rightarrow> TagType list \<Rightarrow> TagType list \<Rightarrow> TagType list" where
  "forEach_tag tagKeys unpinnedTags [] tags' = tags'"
| "forEach_tag tagKeys unpinnedTags (tag # rest) tags' =
     (if key tag \<in> tagKeys then forEach_tag tagKeys unpinnedTags rest tags'
      else if indexOf unpinnedTags (JString (key tag)) = - 1
           then forEach_tag tagKeys unpinnedTags rest (tags' @ [tag])
           else forEach_tag tagKeys unpinnedTags rest tags')"

definition tagsToShow ::
    "DagsterTag \<Rightarrow> (RunFilterToken list \<Rightarrow> string) \<Rightarrow> 't RunTableRunFragment \<Rightarrow>
     TagType option \<Rightarrow> TagType list \<Rightarrow> json list \<Rightarrow> TagType list" where
  "tagsToShow dt runsPathWithFilters run tb allTags unpinnedTags =
     (case tb of
        None \<Rightarrow> forEach_tag {} unpinnedTags allTags []
      | Some b \<Rightarrow>
          if pinned b = Some True
          then forEach_tag {Backfill dt} unpinnedTags allTags
                 [b\<lparr>link := Some (backfill_link dt runsPathWithFilters run b)\<rparr>]
          else forEach_tag {} unpinnedTags allTags [])"

text \<open>
  \<^verbatim>\<open>onToggleTagPin\<close> (lines 339-351): the updater given to \<^verbatim>\<open>setUnpinnedTags\<close>, applied
  to the previous state, which may be undefined (\<open>None\<close>); \<open>or_empty\<close> is
  \<^verbatim>\<open>unpinnedTags || []\<close> of line 342.
\<close>

definition or_empty :: "'a list option \<Rightarrow> 'a list" where
  "or_empty st = (case st of Some u \<Rightarrow> u | None \<Rightarrow> [])"

definition onToggleTagPin :: "string \<Rightarrow> json list option \<Rightarrow> json list" where
  "onToggleTagPin tagKey st =
     (let unpinnedTags = or_empty st
      in if indexOf unpinnedTags (JString tagKey) \<noteq> - 1
         then filter (\<lambda>k. k \<noteq> JString tagKey) unpinnedTags
         else unpinnedTags @ [JString tagKey])"

text \<open>
  What one \<^verbatim>\<open>RunRow\<close> derives and hands to its children: the summary \<^verbatim>\<open>RunTags\<close> gets
  \<^verbatim>\<open>tagsToShow\<close> (line 413), the dialog's \<^verbatim>\<open>RunTags\<close> gets \<^verbatim>\<open>allTagsWithPinned\<close>
  (line 469), the ``Re-execution'' tag is rendered when \<^verbatim>\<open>isReexecution\<close> (line 374), and
  the ``View all tags'' button when the full list is longer than the summary (line 416).
\<close>

record RunRowView =
  row_isJob :: bool
  row_isReexecution :: bool
  row_targetBackfill :: "TagType option"
  summary_tags :: "TagType list"
  dialog_tags :: "TagType list"
  view_all_button :: bool

definition RunRow ::
    "DagsterTag \<Rightarrow> (RunFilterToken list \<Rightarrow> string) \<Rightarrow> DagsterRepoOption option \<Rightarrow>
     json list \<Rightarrow> Run \<Rightarrow> RunRowView" where
  "RunRow dt runsPathWithFilters repo unpinnedTags run =
     (let isJob' = RunRow_isJob repo (pipelineName run);
          allTags = allTagsWithPinned run isJob' unpinnedTags;
          tb = targetBackfill dt allTags;
          shown = tagsToShow dt runsPathWithFilters run tb allTags unpinnedTags
      in \<lparr>row_isJob = isJob',
          row_isReexecution = isReexecution dt run,
          row_targetBackfill = tb,
          summary_tags = shown,
          dialog_tags = allTags,
          view_all_button = (length allTags > length shown)\<rparr>)"

section \<open>RunTable: the body of the table\<close>

text \<open>
  \<^verbatim>\<open>content()\<close> (lines 80-166) returns one of four things: the caller's \<^verbatim>\<open>emptyState()\<close>,
  the ``No matching runs'' notice, the ``No runs found'' notice, or the table. The table
  is its header checkbox (present when some run may be terminated or deleted) and the
  properties of its rows. \<^verbatim>\<open>filter\<close> is an optional object, given by its own keys and
  their values; \<^verbatim>\<open>emptyState\<close> is an optional callback. \<open>anyFilter\<close> is line 82:
  \<^verbatim>\<open>!!Object.keys(filter || {}).length\<close>. The checked identifiers are a \<^verbatim>\<open>Set\<close>, which
  is finite, and \<^verbatim>\<open>size\<close> is its cardinality.
\<close>

record HeaderCheckbox =
  indeterminate :: bool
  checked :: bool

record RunRowProps =
  row_run :: Run
  row_checked :: bool
  canTerminateOrDelete :: bool

datatype 'r Content =
    EmptyStateOverride 'r
  | NoMatchingRuns
  | NoRunsFound
  | RunsTable "HeaderCheckbox option" "RunRowProps list"

definition allIds :: "'t RunTableRunFragment list \<Rightarrow> string list" where
  "allIds runs = map id_run runs"

definition canTerminateOrDeleteAny :: "'t RunTableRunFragment list \<Rightarrow> bool" where
  "canTerminateOrDeleteAny runs =
     list_ex (\<lambda>run. hasTerminatePermission run \<or> hasDeletePermission run) runs"

definition anyFilter :: "(string \<times> 'v) list option \<Rightarrow> bool" where
  "anyFilter filter' = (length (map fst (case filter' of Some f \<Rightarrow> f | None \<Rightarrow> [])) \<noteq> 0)"

definition content ::
    "Run list \<Rightarrow> (string \<times> 'v) list option \<Rightarrow> (unit \<Rightarrow> 'r) option \<Rightarrow> string set \<Rightarrow> 'r Content" where
  "content runs filter' emptyState checkedIds' =
     (if length runs = 0
      then (let any = anyFilter filter'
            in case emptyState of
                 Some e \<Rightarrow> EmptyStateOverride (e ())
               | None \<Rightarrow> if any then NoMatchingRuns else NoRunsFound)
      else RunsTable
             (if canTerminateOrDeleteAny runs
              then Some \<lparr>indeterminate = (card checkedIds' > 0 \<and> card checkedIds' \<noteq> length runs),
                         checked = (card checkedIds' = length runs)\<rparr>
              else None)
             (map (\<lambda>run. \<lparr>row_run = run,
                            row_checked = (id_run run \<in> checkedIds'),
                            canTerminateOrDelete =
                              (hasTerminatePermission run \<or> hasDeletePermission run)\<rparr>) runs))"

section \<open>The selection store\<close>

text \<open>
  Modelled from the spec: \<^verbatim>\<open>useSelectionReducer\<close> (\<^verbatim>\<open>../hooks/useSelectionReducer\<close>) is
  imported by RunTable.tsx and called with \<^verbatim>\<open>allIds\<close> (line 74), but its source is not
  among the files. The specification gives the state as the set of checked identifiers
  with one piece of memory, the last toggled identifier; the set is ``scoped to the
  currently rendered list''. Of the bulk operation it says: ``\<^verbatim>\<open>toggleAll(true)\<close> checks
  every id currently in the list; \<^verbatim>\<open>toggleAll(false)\<close> clears all''. So after
  \<^verbatim>\<open>toggleAll(true)\<close> the checked identifiers are those of the list, and after
  \<^verbatim>\<open>toggleAll(false)\<close> there are none. It says nothing of what the bulk operation does to
  the memory, which is left as it was.
\<close>

record SelectionState =
  checkedIds :: "string set"
  lastToggledId :: "string option"

definition onToggleAll :: "string list \<Rightarrow> bool \<Rightarrow> SelectionState \<Rightarrow> SelectionState" where
  "onToggleAll ids checked' st =
     (if checked' then st\<lparr>checkedIds := set ids\<rparr>
      else st\<lparr>checkedIds := {}\<rparr>)"

section \<open>The row's derivation over a store of arrays\<close>

text \<open>
  The only assignments in \<^verbatim>\<open>RunRow\<close> to anything but a local variable are the calls of
  \<^verbatim>\<open>push\<close> on an array (lines 291, 321, 333); objects are never assigned to, only spread
  into new object literals, so objects stay values. To say which array a \<^verbatim>\<open>push\<close>
  changes, arrays live in a store: an address is an index into the list of arrays, a new
  array is appended at the next address, and a run holds the address of its tag array. A
  raw tag has neither \<^verbatim>\<open>pinned\<close> nor \<^verbatim>\<open>link\<close>. A reference of the language never
  dangles, so a read at an address outside the store has no counterpart in the source.
\<close>

type_synonym addr = nat
type_synonym store = "TagType list list"
type_synonym Run_ref = "addr RunTableRunFragment"

definition array_new :: "TagType list \<Rightarrow> store \<Rightarrow> addr \<times> store" where
  "array_new xs h = (length h, h @ [xs])"

definition array_push :: "addr \<Rightarrow> TagType \<Rightarrow> store \<Rightarrow> store" where
  "array_push a x h = h[a := (h ! a) @ [x]]"

definition array_get :: "store \<Rightarrow> addr \<Rightarrow> TagType list" where
  "array_get h a = h ! a"

definition raw_tag :: "RunTagsFragment \<Rightarrow> TagType" where
  "raw_tag t = \<lparr>key = key t, value = value t, pinned = None, link = None\<rparr>"

definition with_tags :: "'a RunTableRunFragment \<Rightarrow> 'b \<Rightarrow> 'b RunTableRunFragment" where
  "with_tags run ts =
     \<lparr>id_run = id_run run, mode = mode run, pipelineName = pipelineName run,
      assetSelection = assetSelection run,
      hasTerminatePermission = hasTerminatePermission run,
      hasDeletePermission = hasDeletePermission run, tags = ts\<rparr>"

text \<open>
  Lines 288-300: \<^verbatim>\<open>[...run.tags]\<close> is a new array with the elements of the run's; the
  \<^verbatim>\<open>push\<close> of the mode tag goes to that new array; \<^verbatim>\<open>map\<close> returns another new array
  of new objects \<^verbatim>\<open>{...tag, pinned}\<close>.
\<close>

definition allTagsWithPinned_st :: "Run_ref \<Rightarrow> bool \<Rightarrow> json list \<Rightarrow> store \<Rightarrow> addr \<times> store" where
  "allTagsWithPinned_st run isJob' unpinnedTags h =
     (let (allTags, h1) = array_new (array_get h (tags run)) h;
          h2 = (if (isJob' \<and> mode run \<noteq> ''default'') \<or> \<not> isJob'
                then array_push allTags
                       \<lparr>key = ''mode'', value = mode run, pinned = None, link = None\<rparr> h1
                else h1)
      in array_new
           (map (\<lambda>tag. tag\<lparr>pinned := Some (indexOf unpinnedTags (JString (key tag)) = - 1)\<rparr>)
              (array_get h2 allTags))
           h2)"

text \<open>
  Lines 309-337: \<^verbatim>\<open>tags\<close> is a new empty array, and both \<^verbatim>\<open>push\<close> calls go to it. The
  loop runs over the array \<^verbatim>\<open>allTagsWithPinned\<close>, which is another array than the one it
  pushes to, so it runs over the elements that array has when the loop starts.
\<close>

fun forEach_tag_st :: "string set \<Rightarrow> json list \<Rightarrow> TagType list \<Rightarrow> addr \<Rightarrow> store \<Rightarrow> store" where
  "forEach_tag_st tagKeys unpinnedTags [] a h = h"
| "forEach_tag_st tagKeys unpinnedTags (tag # rest) a h =
     (if key tag \<in> tagKeys then forEach_tag_st tagKeys unpinnedTags rest a h
      else if indexOf unpinnedTags (JString (key tag)) = - 1
           then forEach_tag_st tagKeys unpinnedTags rest a (array_push a tag h)
           else forEach_tag_st tagKeys unpinnedTags rest a h)"

definition tagsToShow_st ::
    "DagsterTag \<Rightarrow> (RunFilterToken list \<Rightarrow> string) \<Rightarrow> Run_ref \<Rightarrow> TagType option \<Rightarrow> addr \<Rightarrow>
     json list \<Rightarrow> store \<Rightarrow> addr \<times> store" where
  "tagsToShow_st dt runsPathWithFilters run tb allTags unpinnedTags h =
     (let (tags', h1) = array_new [] h;
          (tagKeys, h2) =
            (case tb of
               None \<Rightarrow> ({}, h1)
             | Some b \<Rightarrow>
                 if pinned b = Some True
                 then ({Backfill dt},
                       array_push tags'
                         (b\<lparr>link := Some (backfill_link dt runsPathWithFilters run b)\<rparr>) h1)
                 else ({}, h1))
      in (tags', forEach_tag_st tagKeys unpinnedTags (array_get h2 allTags) tags' h2))"

text \<open>
  One render of a row: the addresses of the full tag list and of the summary tag list,
  and the store afterwards.
\<close>

definition RunRow_st ::
    "DagsterTag \<Rightarrow> (RunFilterToken list \<Rightarrow> string) \<Rightarrow> DagsterRepoOption option \<Rightarrow>
     json list \<Rightarrow> Run_ref \<Rightarrow> store \<Rightarrow> (addr \<times> addr) \<times> store" where
  "RunRow_st dt runsPathWithFilters repo unpinnedTags run h =
     (let isJob' = RunRow_isJob repo (pipelineName run);
          (allTags, h1) = allTagsWithPinned_st run isJob' unpinnedTags h;
          tb = targetBackfill dt (array_get h1 allTags);
          (shown, h2) = tagsToShow_st dt runsPathWithFilters run tb allTags unpinnedTags h1
      in ((allTags, shown), h2))"

section \<open>Sample inputs\<close>

text \<open>
  Concrete values at which the theorems below are evaluated: the two tag keys, a path
  function standing for \<^verbatim>\<open>runsPathWithFilters\<close>, a repository that knows \<open>job1\<close> as a
  job, and a run with given tags, asset selection and mode.
\<close>

definition sample_keys :: DagsterTag where
  "sample_keys = \<lparr>Backfill = ''dagster/backfill'', ParentRunId = ''dagster/parent_run_id''\<rparr>"

definition sample_path :: "RunFilterToken list \<Rightarrow> string" where
  "sample_path ts = ''/runs?q='' @ concat (map (\<lambda>t. token t @ ''='' @ token_value t) ts)"

definition sample_repo :: DagsterRepoOption where
  "sample_repo = \<lparr>match = \<lparr>repository = \<lparr>pipelines = [\<lparr>name = ''job1'', isJob = True\<rparr>]\<rparr>\<rparr>\<rparr>"

definition sample_run :: "RunTagsFragment list \<Rightarrow> AssetKey list option \<Rightarrow> string \<Rightarrow> Run" where
  "sample_run ts sel m =
     \<lparr>id_run = ''run1'', mode = m, pipelineName = ''job1'', assetSelection = sel,
      hasTerminatePermission = True, hasDeletePermission = False, tags = ts\<rparr>"

section \<open>Basic facts\<close>

lemma indexOf_from_minus1: "0 \<le> i \<Longrightarrow> (indexOf_from xs x i = - 1) = (x \<notin> set xs)"
  by (induction xs arbitrary: i) auto

lemma indexOf_minus1_iff: "(indexOf xs x = - 1) = (x \<notin> set xs)"
  by (simp add: indexOf_def indexOf_from_minus1)

lemma key_value_raw:
  "map (\<lambda>t. \<lparr>key = key t, value = value t\<rparr>) (ts :: RunTagsFragment list) = ts"
  by (rule map_idI) simp

lemma allTagsWithPinned_key_value:
  "map (\<lambda>t. \<lparr>key = key t, value = value t\<rparr>) (allTagsWithPinned run j u) =
     tags run @ (if \<not> j \<or> (j \<and> mode run \<noteq> ''default'')
                 then [\<lparr>key = ''mode'', value = mode run\<rparr>] else [])"
  by (auto simp: allTagsWithPinned_def Let_def comp_def key_value_raw)

lemma pinned_flag:
  "t \<in> set (allTagsWithPinned run j u) \<Longrightarrow> pinned t = Some (JString (key t) \<notin> set u)"
  by (auto simp: allTagsWithPinned_def Let_def indexOf_minus1_iff)

text \<open>The loop appends, in order, the tags whose key is neither in \<open>tagKeys\<close> nor unpinned.\<close>

lemma forEach_tag_filter:
  "forEach_tag K u xs acc = acc @ filter (\<lambda>t. key t \<notin> K \<and> JString (key t) \<notin> set u) xs"
  by (induction xs arbitrary: acc) (auto simp: indexOf_minus1_iff)

lemma RunRow_fields:
  "summary_tags (RunRow dt rp repo u run) =
     tagsToShow dt rp run
       (targetBackfill dt (allTagsWithPinned run (RunRow_isJob repo (pipelineName run)) u))
       (allTagsWithPinned run (RunRow_isJob repo (pipelineName run)) u) u"
  "row_targetBackfill (RunRow dt rp repo u run) =
     targetBackfill dt (allTagsWithPinned run (RunRow_isJob repo (pipelineName run)) u)"
  "dialog_tags (RunRow dt rp repo u run) =
     allTagsWithPinned run (RunRow_isJob repo (pipelineName run)) u"
  "row_isJob (RunRow dt rp repo u run) = RunRow_isJob repo (pipelineName run)"
  "row_isReexecution (RunRow dt rp repo u run) = isReexecution dt run"
  by (simp_all add: RunRow_def Let_def)

lemma summary_shape:
  "summary_tags (RunRow dt rp repo u run) =
     (case row_targetBackfill (RunRow dt rp repo u run) of
        Some b \<Rightarrow>
          if pinned b = Some True then [b\<lparr>link := Some (backfill_link dt rp run b)\<rparr>] else []
      | None \<Rightarrow> []) @
     filter (\<lambda>t. key t \<noteq> Backfill dt \<and> JString (key t) \<notin> set u)
       (dialog_tags (RunRow dt rp repo u run))"
proof -
  define all where "all = allTagsWithPinned run (RunRow_isJob repo (pipelineName run)) u"
  define keep where "keep = (\<lambda>t::TagType. key t \<noteq> Backfill dt \<and> JString (key t) \<notin> set u)"
  have goal: "tagsToShow dt rp run (targetBackfill dt all) all u =
     (case targetBackfill dt all of
        Some b \<Rightarrow>
          if pinned b = Some True then [b\<lparr>link := Some (backfill_link dt rp run b)\<rparr>] else []
      | None \<Rightarrow> []) @ filter keep all"
  proof (cases "targetBackfill dt all")
    case None
    then have "\<forall>t \<in> set all. key t \<noteq> Backfill dt"
      by (auto simp: targetBackfill_def find_None_iff)
    then have "filter (\<lambda>t. key t \<notin> {} \<and> JString (key t) \<notin> set u) all = filter keep all"
      by (intro filter_cong) (auto simp: keep_def)
    with None show ?thesis by (simp add: tagsToShow_def forEach_tag_filter)
  next
    case (Some b)
    show ?thesis
    proof (cases "pinned b = Some True")
      case True
      with Some show ?thesis by (simp add: tagsToShow_def forEach_tag_filter keep_def)
    next
      case False
      from Some have b: "b \<in> set all" "key b = Backfill dt"
        by (auto simp: targetBackfill_def find_Some_iff)
      with False have "JString (Backfill dt) \<in> set u"
        using pinned_flag [of b run "RunRow_isJob repo (pipelineName run)" u]
        by (auto simp: all_def)
      then have "filter (\<lambda>t. key t \<notin> {} \<and> JString (key t) \<notin> set u) all = filter keep all"
        by (intro filter_cong) (auto simp: keep_def)
      with Some False show ?thesis by (simp add: tagsToShow_def forEach_tag_filter)
    qed
  qed
  show ?thesis unfolding RunRow_fields using goal by (simp add: keep_def all_def)
qed

text \<open>
  The row's backfill tag is the first raw tag with the backfill key, with its pin flag.
\<close>

lemma find_first_map:
  "\<forall>p \<in> set pre. \<not> P (f p) \<Longrightarrow> P (f t0) \<Longrightarrow>
     find P (map f (pre @ t0 # rest)) = Some (f t0)"
  by (induction pre) simp_all

lemma targetBackfill_first:
  assumes "tags run = pre @ t0 # post"
    and "\<forall>p \<in> set pre. key p \<noteq> Backfill dt"
    and "key t0 = Backfill dt"
  shows "targetBackfill dt (allTagsWithPinned run j u) =
           Some \<lparr>key = Backfill dt, value = value t0,
                 pinned = Some (JString (Backfill dt) \<notin> set u), link = None\<rparr>"
proof -
  let ?f = "\<lambda>tag::RunTagsFragment.
              \<lparr>key = key tag, value = value tag,
               pinned = Some (indexOf u (JString (key tag)) = - 1), link = None\<rparr>"
  define rest where
    "rest = post @ (if (j \<and> mode run \<noteq> ''default'') \<or> \<not> j
                    then [\<lparr>key = ''mode'', value = mode run\<rparr>] else [])"
  have all: "allTagsWithPinned run j u = map ?f (pre @ t0 # rest)"
    using assms(1) by (simp add: allTagsWithPinned_def Let_def rest_def)
  have "find (\<lambda>tag. key tag = Backfill dt) (map ?f (pre @ t0 # rest)) = Some (?f t0)"
    using assms(2,3) by (intro find_first_map) simp_all
  then have "targetBackfill dt (allTagsWithPinned run j u) = Some (?f t0)"
    unfolding targetBackfill_def all .
  with assms(3) show ?thesis
    by (simp add: indexOf_minus1_iff)
qed

section \<open>The full tag list\<close>

text \<open>
  Claim C2. The full tag list of a row, read as key/value pairs, is the run's raw tags
  followed by the synthesized tag with key \<open>mode\<close> and value \<open>run.mode\<close>; that tag is there
  exactly when the run is not a job, or is a job whose mode is not \<open>default\<close>, and for a
  job with mode \<open>default\<close> nothing is added.
\<close>

theorem allTagsWithPinned_raw_plus_mode:
  "map (\<lambda>t. \<lparr>key = key t, value = value t\<rparr>) (allTagsWithPinned run j u) =
     tags run @ (if \<not> j \<or> (j \<and> mode run \<noteq> ''default'')
                 then [\<lparr>key = ''mode'', value = mode run\<rparr>] else [])"
  by (rule allTagsWithPinned_key_value)

theorem allTagsWithPinned_raw_plus_mode_witness:
  "map (\<lambda>t. \<lparr>key = key t, value = value t\<rparr>)
     (allTagsWithPinned (sample_run [\<lparr>key = ''team'', value = ''data''\<rparr>] None ''default'') True []) =
     [\<lparr>key = ''team'', value = ''data''\<rparr>] \<and>
   map (\<lambda>t. \<lparr>key = key t, value = value t\<rparr>)
     (allTagsWithPinned (sample_run [\<lparr>key = ''team'', value = ''data''\<rparr>] None ''prod'') True []) =
     [\<lparr>key = ''team'', value = ''data''\<rparr>, \<lparr>key = ''mode'', value = ''prod''\<rparr>] \<and>
   map (\<lambda>t. \<lparr>key = key t, value = value t\<rparr>)
     (allTagsWithPinned (sample_run [\<lparr>key = ''team'', value = ''data''\<rparr>] None ''default'') False []) =
     [\<lparr>key = ''team'', value = ''data''\<rparr>, \<lparr>key = ''mode'', value = ''default''\<rparr>]"
  using allTagsWithPinned_raw_plus_mode
          [of "sample_run [\<lparr>key = ''team'', value = ''data''\<rparr>] None ''default''" True "[]"]
        allTagsWithPinned_raw_plus_mode
          [of "sample_run [\<lparr>key = ''team'', value = ''data''\<rparr>] None ''prod''" True "[]"]
        allTagsWithPinned_raw_plus_mode
          [of "sample_run [\<lparr>key = ''team'', value = ''data''\<rparr>] None ''default''" False "[]"]
  by (simp add: sample_run_def)

text \<open>
  Claim C10. When no repository is resolved for a run, the row takes the run for not a
  job, and the mode tag is the last element of the full tag list whatever \<open>run.mode\<close> is,
  the mode \<open>default\<close> included.
\<close>

theorem unresolved_repo_mode_tag:
  "row_isJob (RunRow dt rp None u run) = False \<and>
   map (\<lambda>t. \<lparr>key = key t, value = value t\<rparr>) (dialog_tags (RunRow dt rp None u run)) =
     tags run @ [\<lparr>key = ''mode'', value = mode run\<rparr>]"
  by (simp add: RunRow_fields RunRow_isJob_def allTagsWithPinned_key_value)

theorem unresolved_repo_mode_tag_witness:
  "row_isJob (RunRow sample_keys sample_path None [] (sample_run [] None ''default'')) = False \<and>
   map (\<lambda>t. \<lparr>key = key t, value = value t\<rparr>)
     (dialog_tags (RunRow sample_keys sample_path None [] (sample_run [] None ''default''))) =
     [\<lparr>key = ''mode'', value = ''default''\<rparr>] \<and>
   row_isJob (RunRow sample_keys sample_path (Some sample_repo) [] (sample_run [] None ''default'')) = True \<and>
   dialog_tags (RunRow sample_keys sample_path (Some sample_repo) [] (sample_run [] None ''default'')) = []"
  using unresolved_repo_mode_tag [of sample_keys sample_path "[]" "sample_run [] None ''default''"]
  by (simp add: sample_run_def sample_repo_def RunRow_fields RunRow_isJob_def
        allTagsWithPinned_def)

section \<open>The re-execution indicator\<close>

text \<open>
  Claim C6. A row shows the ``Re-execution'' indicator if and only if some tag of the
  run's raw tag list has the parent-run-id key; with no such raw tag it does not.
\<close>

theorem isReexecution_iff_parent_tag:
  "row_isReexecution (RunRow dt rp repo u run) = (\<exists>t \<in> set (tags run). key t = ParentRunId dt)"
  by (simp add: RunRow_fields isReexecution_def list_ex_iff)

theorem isReexecution_iff_parent_tag_witness:
  "row_isReexecution (RunRow sample_keys sample_path None []
     (sample_run [\<lparr>key = ''team'', value = ''data''\<rparr>,
                  \<lparr>key = ''dagster/parent_run_id'', value = ''run0''\<rparr>] None ''default'')) \<and>
   \<not> row_isReexecution (RunRow sample_keys sample_path None []
     (sample_run [\<lparr>key = ''team'', value = ''data''\<rparr>] None ''default''))"
  using isReexecution_iff_parent_tag [of sample_keys sample_path None "[]"
          "sample_run [\<lparr>key = ''team'', value = ''data''\<rparr>,
                       \<lparr>key = ''dagster/parent_run_id'', value = ''run0''\<rparr>] None ''default''"]
        isReexecution_iff_parent_tag [of sample_keys sample_path None "[]"
          "sample_run [\<lparr>key = ''team'', value = ''data''\<rparr>] None ''default''"]
  by (simp add: sample_run_def sample_keys_def)

section \<open>The pin preference\<close>

text \<open>
  Claim C4. For every tag key and every state of the unpinned list, one application of
  \<open>onToggleTagPin\<close> flips whether the key is in the list, and a second application gives
  a list with the members of the original one.
\<close>

theorem onToggleTagPin_twice:
  "(JString k \<in> set (onToggleTagPin k st)) = (JString k \<notin> set (or_empty st)) \<and>
   set (onToggleTagPin k (Some (onToggleTagPin k st))) = set (or_empty st)"
  by (auto simp: onToggleTagPin_def Let_def indexOf_minus1_iff or_empty_def)

theorem onToggleTagPin_twice_witness:
  "onToggleTagPin ''team'' (Some [JString ''a'', JString ''team'', JString ''b'']) =
     [JString ''a'', JString ''b''] \<and>
   onToggleTagPin ''team'' (Some [JString ''a'', JString ''b'']) =
     [JString ''a'', JString ''b'', JString ''team''] \<and>
   set (onToggleTagPin ''team''
         (Some (onToggleTagPin ''team'' (Some [JString ''a'', JString ''team'', JString ''b''])))) =
     {JString ''a'', JString ''team'', JString ''b''} \<and>
   onToggleTagPin ''team'' None = [JString ''team'']"
  using onToggleTagPin_twice [of "''team''" "Some [JString ''a'', JString ''team'', JString ''b'']"]
  by (auto simp: onToggleTagPin_def Let_def indexOf_def or_empty_def)

text \<open>
  Claim C5. For every stored value that is not a list (another JSON value, or none at all)
  the validator returns the empty list; it has no failing branch. With that list every
  tag of the full tag list is pinned.
\<close>

theorem unpinned_tags_validator_not_array:
  "\<not> Array_isArray v \<Longrightarrow>
     unpinned_tags_validator v = [] \<and>
     (\<forall>t \<in> set (allTagsWithPinned run j (unpinned_tags_validator v)). pinned t = Some True)"
  by (auto simp: unpinned_tags_validator_def dest: pinned_flag)

theorem unpinned_tags_validator_not_array_witness:
  "\<not> Array_isArray (JObject [(''team'', JBool True)]) \<and>
   unpinned_tags_validator (JObject [(''team'', JBool True)]) = [] \<and>
   map pinned (allTagsWithPinned (sample_run [\<lparr>key = ''team'', value = ''data''\<rparr>] None ''prod'') True
                 (unpinned_tags_validator (JObject [(''team'', JBool True)]))) =
     [Some True, Some True] \<and>
   unpinned_tags_validator JUndefined = [] \<and>
   unpinned_tags_validator (JArray [JString ''team'']) = [JString ''team'']"
  using unpinned_tags_validator_not_array [of "JObject [(''team'', JBool True)]"
          "sample_run [\<lparr>key = ''team'', value = ''data''\<rparr>] None ''prod''" True]
  by (simp add: unpinned_tags_validator_def allTagsWithPinned_def sample_run_def indexOf_def)

section \<open>The summary tag list\<close>

text \<open>
  Claim C3. Take a run whose raw tags hold a tag with the backfill key, \<open>t0\<close> being the
  first of them, and an unpinned list that does not hold the backfill key, so that the
  backfill tag is pinned. Then the summary is not empty and its first tag is the backfill
  tag: key and value of \<open>t0\<close>, pinned, with a link. When the run's asset selection is present
  and non-empty the link is the path \<open>/overview/backfills/\<close> followed by the tag's value;
  when the selection is empty or absent it is the run-list path for the one filter token
  \<open>tag\<close> with value \<open>backfillKey=backfillValue\<close>.
\<close>

theorem backfill_tag_link:
  assumes "tags run = pre @ t0 # post"
    and "\<forall>p \<in> set pre. key p \<noteq> Backfill dt"
    and "key t0 = Backfill dt"
    and "JString (Backfill dt) \<notin> set u"
  shows "summary_tags (RunRow dt rp repo u run) \<noteq> [] \<and>
         (assetSelection run \<noteq> None \<and> assetSelection run \<noteq> Some [] \<longrightarrow>
            hd (summary_tags (RunRow dt rp repo u run)) =
              \<lparr>key = Backfill dt, value = value t0, pinned = Some True,
               link = Some (''/overview/backfills/'' @ value t0)\<rparr>) \<and>
         (assetSelection run = None \<or> assetSelection run = Some [] \<longrightarrow>
            hd (summary_tags (RunRow dt rp repo u run)) =
              \<lparr>key = Backfill dt, value = value t0, pinned = Some True,
               link = Some (rp [\<lparr>token = ''tag'',
                                  token_value = Backfill dt @ ''='' @ value t0\<rparr>])\<rparr>)"
proof -
  have tb: "row_targetBackfill (RunRow dt rp repo u run) =
              Some \<lparr>key = Backfill dt, value = value t0, pinned = Some True, link = None\<rparr>"
    using targetBackfill_first [OF assms(1-3), of "RunRow_isJob repo (pipelineName run)" u]
      assms(4)
    by (simp add: RunRow_fields)
  show ?thesis
    by (auto simp: summary_shape tb backfill_link_def split: option.splits)
qed

theorem backfill_tag_link_witness:
  "summary_tags (RunRow sample_keys sample_path None [JString ''team'']
       (sample_run [\<lparr>key = ''team'', value = ''data''\<rparr>,
                    \<lparr>key = ''dagster/backfill'', value = ''abc''\<rparr>,
                    \<lparr>key = ''owner'', value = ''me''\<rparr>] (Some [\<lparr>path = [''a'']\<rparr>]) ''default'')) =
     [\<lparr>key = ''dagster/backfill'', value = ''abc'', pinned = Some True,
        link = Some ''/overview/backfills/abc''\<rparr>,
      \<lparr>key = ''owner'', value = ''me'', pinned = Some True, link = None\<rparr>,
      \<lparr>key = ''mode'', value = ''default'', pinned = Some True, link = None\<rparr>] \<and>
   hd (summary_tags (RunRow sample_keys sample_path None [JString ''team'']
       (sample_run [\<lparr>key = ''team'', value = ''data''\<rparr>,
                    \<lparr>key = ''dagster/backfill'', value = ''abc''\<rparr>,
                    \<lparr>key = ''owner'', value = ''me''\<rparr>] (Some []) ''default''))) =
     \<lparr>key = ''dagster/backfill'', value = ''abc'', pinned = Some True,
      link = Some ''/runs?q=tag=dagster/backfill=abc''\<rparr> \<and>
   hd (summary_tags (RunRow sample_keys sample_path None [JString ''team'']
       (sample_run [\<lparr>key = ''team'', value = ''data''\<rparr>,
                    \<lparr>key = ''dagster/backfill'', value = ''abc''\<rparr>,
                    \<lparr>key = ''owner'', value = ''me''\<rparr>] None ''default''))) =
     \<lparr>key = ''dagster/backfill'', value = ''abc'', pinned = Some True,
      link = Some ''/runs?q=tag=dagster/backfill=abc''\<rparr>"
proof -
  let ?pre = "[\<lparr>key = ''team'', value = ''data''\<rparr>]"
  let ?t0 = "\<lparr>key = ''dagster/backfill'', value = ''abc''\<rparr>"
  let ?post = "[\<lparr>key = ''owner'', value = ''me''\<rparr>]"
  have split: "tags (sample_run [\<lparr>key = ''team'', value = ''data''\<rparr>,
                    \<lparr>key = ''dagster/backfill'', value = ''abc''\<rparr>,
                    \<lparr>key = ''owner'', value = ''me''\<rparr>] sel ''default'') = ?pre @ ?t0 # ?post" for sel
    by (simp add: sample_run_def)
  have pre: "\<forall>p \<in> set ?pre. key p \<noteq> Backfill sample_keys"
    by (simp add: sample_keys_def)
  have k: "key ?t0 = Backfill sample_keys"
    by (simp add: sample_keys_def)
  have pin: "JString (Backfill sample_keys) \<notin> set [JString ''team'']"
    by (simp add: sample_keys_def)
  have full: "summary_tags (RunRow sample_keys sample_path None [JString ''team'']
       (sample_run [\<lparr>key = ''team'', value = ''data''\<rparr>,
                    \<lparr>key = ''dagster/backfill'', value = ''abc''\<rparr>,
                    \<lparr>key = ''owner'', value = ''me''\<rparr>] (Some [\<lparr>path = [''a'']\<rparr>]) ''default'')) =
     [\<lparr>key = ''dagster/backfill'', value = ''abc'', pinned = Some True,
        link = Some ''/overview/backfills/abc''\<rparr>,
      \<lparr>key = ''owner'', value = ''me'', pinned = Some True, link = None\<rparr>,
      \<lparr>key = ''mode'', value = ''default'', pinned = Some True, link = None\<rparr>]"
    by (simp add: RunRow_fields RunRow_isJob_def allTagsWithPinned_def targetBackfill_def
          tagsToShow_def backfill_link_def indexOf_def sample_run_def sample_keys_def)
  show ?thesis
    using full
      backfill_tag_link [OF split [of "Some [\<lparr>path = [''a'']\<rparr>]"] pre k pin,
        where rp = sample_path and repo = None]
      backfill_tag_link [OF split [of "Some []"] pre k pin,
        where rp = sample_path and repo = None]
      backfill_tag_link [OF split [of None] pre k pin,
        where rp = sample_path and repo = None]
    by (simp add: sample_run_def sample_keys_def sample_path_def)
qed

text \<open>
  Claim C1. The summary tag list is to be the backfill tag first (when one is present and
  pinned, added once and not repeated later), followed by every other tag whose key is not
  in the unpinned list, in the order of the full tag list. The row departs from this where
  two raw tags carry the backfill key. For the raw tags \<open>dagster/backfill=abc\<close> and
  \<open>dagster/backfill=xyz\<close> and nothing unpinned, the row finds \<open>abc\<close> as its backfill tag
  and puts it first with its link; \<open>xyz\<close> is another tag of the full tag list, is pinned,
  and was never added, yet the test of line 328 skips it under the comment ``We already
  added this tag'', and the summary is \<open>abc\<close> and the mode tag only. Two raw tags that
  share any other key are both kept: \<open>team=data\<close> and \<open>team=ops\<close> are both in the summary.
\<close>

theorem tagsToShow_drops_second_backfill_tag:
  "row_targetBackfill (RunRow sample_keys sample_path None []
     (sample_run [\<lparr>key = ''dagster/backfill'', value = ''abc''\<rparr>,
                  \<lparr>key = ''dagster/backfill'', value = ''xyz''\<rparr>] None ''prod'')) =
     Some \<lparr>key = ''dagster/backfill'', value = ''abc'', pinned = Some True, link = None\<rparr> \<and>
   dialog_tags (RunRow sample_keys sample_path None []
     (sample_run [\<lparr>key = ''dagster/backfill'', value = ''abc''\<rparr>,
                  \<lparr>key = ''dagster/backfill'', value = ''xyz''\<rparr>] None ''prod'')) =
     [\<lparr>key = ''dagster/backfill'', value = ''abc'', pinned = Some True, link = None\<rparr>,
      \<lparr>key = ''dagster/backfill'', value = ''xyz'', pinned = Some True, link = None\<rparr>,
      \<lparr>key = ''mode'', value = ''prod'', pinned = Some True, link = None\<rparr>] \<and>
   summary_tags (RunRow sample_keys sample_path None []
     (sample_run [\<lparr>key = ''dagster/backfill'', value = ''abc''\<rparr>,
                  \<lparr>key = ''dagster/backfill'', value = ''xyz''\<rparr>] None ''prod'')) =
     [\<lparr>key = ''dagster/backfill'', value = ''abc'', pinned = Some True,
        link = Some ''/runs?q=tag=dagster/backfill=abc''\<rparr>,
      \<lparr>key = ''mode'', value = ''prod'', pinned = Some True, link = None\<rparr>] \<and>
   \<lparr>key = ''dagster/backfill'', value = ''xyz'', pinned = Some True, link = None\<rparr>
     \<notin> set (summary_tags (RunRow sample_keys sample_path None []
         (sample_run [\<lparr>key = ''dagster/backfill'', value = ''abc''\<rparr>,
                      \<lparr>key = ''dagster/backfill'', value = ''xyz''\<rparr>] None ''prod''))) \<and>
   summary_tags (RunRow sample_keys sample_path None []
     (sample_run [\<lparr>key = ''team'', value = ''data''\<rparr>,
                  \<lparr>key = ''team'', value = ''ops''\<rparr>] None ''prod'')) =
     [\<lparr>key = ''team'', value = ''data'', pinned = Some True, link = None\<rparr>,
      \<lparr>key = ''team'', value = ''ops'', pinned = Some True, link = None\<rparr>,
      \<lparr>key = ''mode'', value = ''prod'', pinned = Some True, link = None\<rparr>]"
  by (simp add: RunRow_fields RunRow_isJob_def allTagsWithPinned_def targetBackfill_def
        tagsToShow_def backfill_link_def indexOf_def sample_run_def sample_keys_def
        sample_path_def)

section \<open>The states of the table\<close>

text \<open>
  Claim C7, as amended. When the caller supplies no \<open>emptyState\<close> override, an empty run
  list with no active filter renders the ``No runs found'' notice and an empty run list
  with an active filter renders the different ``No matching runs'' notice. When the
  caller supplies an override, an empty run list renders the override, whatever the
  filter. A non-empty run list renders the table, one row for each run in order.
\<close>

theorem content_states:
  "(runs = [] \<and> e = None \<and> \<not> anyFilter f \<longrightarrow> content runs f e c = NoRunsFound) \<and>
   (runs = [] \<and> e = None \<and> anyFilter f \<longrightarrow> content runs f e c = NoMatchingRuns) \<and>
   (runs = [] \<and> e = Some g \<longrightarrow> content runs f e c = EmptyStateOverride (g ())) \<and>
   (runs \<noteq> [] \<longrightarrow>
      (\<exists>header rows. content runs f e c = RunsTable header rows \<and> map row_run rows = runs))"
  by (auto simp: content_def Let_def comp_def)

theorem content_states_witness:
  "\<not> anyFilter (None :: (string \<times> json) list option) \<and>
   \<not> anyFilter (Some ([] :: (string \<times> json) list)) \<and>
   anyFilter (Some [(''pipelineName'', JString ''job1'')]) \<and>
   content [] (None :: (string \<times> json) list option) (None :: (unit \<Rightarrow> string) option) {} =
     NoRunsFound \<and>
   content [] (Some [(''pipelineName'', JString ''job1'')]) (None :: (unit \<Rightarrow> string) option) {} =
     NoMatchingRuns \<and>
   content [] (Some [(''pipelineName'', JString ''job1'')]) (Some (\<lambda>_. ''nothing here'')) {} =
     EmptyStateOverride ''nothing here'' \<and>
   content [sample_run [] None ''default''] (None :: (string \<times> json) list option)
       (Some (\<lambda>_. ''nothing here'')) {''run1''} =
     RunsTable (Some \<lparr>indeterminate = False, checked = True\<rparr>)
       [\<lparr>row_run = sample_run [] None ''default'', row_checked = True,
         canTerminateOrDelete = True\<rparr>]"
  using content_states [of "[]" "None :: (unit \<Rightarrow> string) option"
          "None :: (string \<times> json) list option" "{}"]
        content_states [of "[]" "None :: (unit \<Rightarrow> string) option"
          "Some [(''pipelineName'', JString ''job1'')]" "{}"]
        content_states [of "[]" "Some (\<lambda>_. ''nothing here'')"
          "Some [(''pipelineName'', JString ''job1'')]" "{}" "\<lambda>_. ''nothing here''"]
  by (simp add: anyFilter_def content_def canTerminateOrDeleteAny_def sample_run_def)

text \<open>
  The claim as first stated fails where the caller supplies an override: with an empty
  run list and no filter, the body is the override and not the ``No runs found'' notice.
\<close>

theorem content_emptyState_override:
  "\<not> anyFilter (None :: (string \<times> json) list option) \<and>
   content [] (None :: (string \<times> json) list option) (Some (\<lambda>_. ''nothing here'')) {} =
     EmptyStateOverride ''nothing here'' \<and>
   content [] (None :: (string \<times> json) list option) (Some (\<lambda>_. ''nothing here'')) {} \<noteq>
     NoRunsFound"
  by (simp add: anyFilter_def content_def)

section \<open>Selecting every row\<close>

text \<open>
  Claim C8. The rows of the table are keyed by \<^verbatim>\<open>run.id\<close> (line 152), so the runs of a
  list carry pairwise distinct identifiers. For every such list and every selection,
  \<open>toggleAll(true)\<close> gives a checked set that holds every identifier of the list and whose
  size is the length of the list, and \<open>toggleAll(false)\<close> gives the empty checked set, of
  size 0.
\<close>

theorem onToggleAll_sizes:
  assumes "distinct (allIds runs)"
  shows "card (checkedIds (onToggleAll (allIds runs) True st)) = length runs \<and>
         set (allIds runs) \<subseteq> checkedIds (onToggleAll (allIds runs) True st) \<and>
         checkedIds (onToggleAll (allIds runs) False st) = {} \<and>
         card (checkedIds (onToggleAll (allIds runs) False st)) = 0"
  using assms distinct_card [of "allIds runs"]
  by (simp add: onToggleAll_def allIds_def)

theorem onToggleAll_sizes_witness:
  "distinct (allIds [sample_run [] None ''default'',
                     (sample_run [] None ''prod'')\<lparr>id_run := ''run2''\<rparr>]) \<and>
   checkedIds (onToggleAll
           (allIds [sample_run [] None ''default'',
                    (sample_run [] None ''prod'')\<lparr>id_run := ''run2''\<rparr>])
           True \<lparr>checkedIds = {''run2''}, lastToggledId = None\<rparr>) = {''run1'', ''run2''} \<and>
   card (checkedIds (onToggleAll
           (allIds [sample_run [] None ''default'',
                    (sample_run [] None ''prod'')\<lparr>id_run := ''run2''\<rparr>])
           True \<lparr>checkedIds = {''run2''}, lastToggledId = None\<rparr>)) = 2 \<and>
   checkedIds (onToggleAll
           (allIds [sample_run [] None ''default'',
                    (sample_run [] None ''prod'')\<lparr>id_run := ''run2''\<rparr>])
           False \<lparr>checkedIds = {''run2''}, lastToggledId = None\<rparr>) = {}"
proof -
  have d: "distinct (allIds [sample_run [] None ''default'',
                     (sample_run [] None ''prod'')\<lparr>id_run := ''run2''\<rparr>])"
    by (simp add: allIds_def sample_run_def)
  show ?thesis
    using d onToggleAll_sizes [OF d, of "\<lparr>checkedIds = {''run2''}, lastToggledId = None\<rparr>"]
    by (simp add: allIds_def sample_run_def onToggleAll_def)
qed

section \<open>Facts about the store\<close>

lemma array_push_fresh: "array_push (length h) x (h @ [xs]) = h @ [xs @ [x]]"
  by (simp add: array_push_def)

lemma forEach_tag_st_fresh:
  "forEach_tag_st K u xs (length h) (h @ [acc]) = h @ [forEach_tag K u xs acc]"
  by (induction xs arbitrary: acc) (simp_all add: array_push_fresh)

lemma allTagsWithPinned_st_eq:
  "allTagsWithPinned_st run j u h =
     (Suc (length h),
      h @ [array_get h (tags run) @
             (if (j \<and> mode run \<noteq> ''default'') \<or> \<not> j
              then [\<lparr>key = ''mode'', value = mode run, pinned = None, link = None\<rparr>] else []),
           map (\<lambda>tag. tag\<lparr>pinned := Some (indexOf u (JString (key tag)) = - 1)\<rparr>)
             (array_get h (tags run) @
               (if (j \<and> mode run \<noteq> ''default'') \<or> \<not> j
                then [\<lparr>key = ''mode'', value = mode run, pinned = None, link = None\<rparr>] else []))])"
  by (simp add: allTagsWithPinned_st_def array_new_def array_get_def array_push_fresh)

lemma tagsToShow_st_eq:
  "allTags < length h \<Longrightarrow>
   tagsToShow_st dt rp run tb allTags u h =
     (length h, h @ [tagsToShow dt rp run tb (array_get h allTags) u])"
  by (auto simp: tagsToShow_st_def tagsToShow_def array_new_def array_get_def array_push_fresh
        forEach_tag_st_fresh nth_append split: option.splits)

lemma raw_tags_pinned:
  "map (\<lambda>tag. tag\<lparr>pinned := Some (indexOf u (JString (key tag)) = - 1)\<rparr>)
     (map raw_tag raw @
       (if (j \<and> mode run \<noteq> ''default'') \<or> \<not> j
        then [\<lparr>key = ''mode'', value = mode run, pinned = None, link = None\<rparr>] else [])) =
   allTagsWithPinned (with_tags run raw) j u"
  by (simp add: allTagsWithPinned_def with_tags_def raw_tag_def Let_def)

lemma backfill_link_with_tags:
  "backfill_link dt rp (with_tags run raw) b = backfill_link dt rp run b"
  by (simp add: backfill_link_def with_tags_def)

lemma tagsToShow_with_tags:
  "tagsToShow dt rp (with_tags run raw) tb all u = tagsToShow dt rp run tb all u"
  by (simp add: tagsToShow_def backfill_link_with_tags split: option.splits)

text \<open>
  One render appends three arrays to the store and changes nothing else: the copy of the
  run's tags (with the mode tag), the full tag list and the summary tag list.
\<close>

lemma RunRow_st_eq:
  "RunRow_st dt rp repo u run h =
     ((Suc (length h), Suc (Suc (length h))),
      h @ [array_get h (tags run) @
             (if (RunRow_isJob repo (pipelineName run) \<and> mode run \<noteq> ''default'') \<or>
                 \<not> RunRow_isJob repo (pipelineName run)
              then [\<lparr>key = ''mode'', value = mode run, pinned = None, link = None\<rparr>] else []),
           array_get (snd (allTagsWithPinned_st run (RunRow_isJob repo (pipelineName run)) u h))
             (Suc (length h)),
           tagsToShow dt rp run
             (targetBackfill dt
               (array_get (snd (allTagsWithPinned_st run (RunRow_isJob repo (pipelineName run)) u h))
                 (Suc (length h))))
             (array_get (snd (allTagsWithPinned_st run (RunRow_isJob repo (pipelineName run)) u h))
               (Suc (length h))) u])"
  by (simp add: RunRow_st_def allTagsWithPinned_st_eq tagsToShow_st_eq Let_def array_get_def
        nth_append)

lemma RunRow_st_frame_any:
  "RunRow_st dt rp repo u run h = ((all, shown), h') \<Longrightarrow>
     take (length h) h' = h \<and> all = Suc (length h) \<and> shown = Suc (Suc (length h)) \<and>
     length h' = length h + 3"
  by (auto simp: RunRow_st_eq)

text \<open>
  The arrays a render leaves in the store are the values of the row's derivation over
  lists, when the run's tag array holds the raw tags \<open>raw\<close>.
\<close>

lemma RunRow_st_refines:
  assumes "RunRow_st dt rp repo u run h = ((all, shown), h')"
    and "array_get h (tags run) = map raw_tag raw"
  shows "array_get h' all = dialog_tags (RunRow dt rp repo u (with_tags run raw)) \<and>
         array_get h' shown = summary_tags (RunRow dt rp repo u (with_tags run raw))"
proof -
  have pn: "pipelineName (with_tags run raw) = pipelineName run"
    by (simp add: with_tags_def)
  have a: "array_get (snd (allTagsWithPinned_st run (RunRow_isJob repo (pipelineName run)) u h))
             (Suc (length h)) =
           allTagsWithPinned (with_tags run raw) (RunRow_isJob repo (pipelineName run)) u"
    using assms(2) raw_tags_pinned [of u raw "RunRow_isJob repo (pipelineName run)" run]
    by (simp add: allTagsWithPinned_st_eq array_get_def nth_append)
  from assms(1) show ?thesis
    unfolding RunRow_st_eq a
    by (auto simp: array_get_def nth_append RunRow_fields pn tagsToShow_with_tags)
qed

section \<open>Rendering does not touch the run\<close>

text \<open>
  Claim C9. Render a row, toggle the pin of a key, and render the row again, each render
  starting from the store the previous one left. Every array that was in the store before
  the first render, the run's raw tag array among them, is unchanged after both renders;
  the full tag list and the summary tag list of each render are new arrays, so the mode tag
  and the linked backfill tag are only ever in those; and the full tag list has the same
  keys and values before and after the toggle, namely the raw tags followed by the mode
  tag where line 290 adds it. The toggle changes only the flags and what the summary holds.
\<close>

theorem render_toggle_render_frame:
  assumes "RunRow_st dt rp repo (or_empty st) run h = ((all1, shown1), h1)"
    and "RunRow_st dt rp repo (onToggleTagPin k st) run h1 = ((all2, shown2), h2)"
    and "tags run < length h"
  shows "take (length h) h1 = h \<and> take (length h) h2 = h \<and> take (length h1) h2 = h1 \<and>
         array_get h1 (tags run) = array_get h (tags run) \<and>
         array_get h2 (tags run) = array_get h (tags run) \<and>
         length h \<le> all1 \<and> length h \<le> shown1 \<and> length h1 \<le> all2 \<and> length h1 \<le> shown2 \<and>
         map (\<lambda>t. \<lparr>key = key t, value = value t\<rparr>) (array_get h2 all2) =
           map (\<lambda>t. \<lparr>key = key t, value = value t\<rparr>) (array_get h1 all1) \<and>
         map (\<lambda>t. \<lparr>key = key t, value = value t\<rparr>) (array_get h1 all1) =
           map (\<lambda>t. \<lparr>key = key t, value = value t\<rparr>) (array_get h (tags run)) @
           (if (RunRow_isJob repo (pipelineName run) \<and> mode run \<noteq> ''default'') \<or>
               \<not> RunRow_isJob repo (pipelineName run)
            then [\<lparr>key = ''mode'', value = mode run\<rparr>] else [])"
proof -
  from assms(1) have h1: "h1 = h @ drop (length h) h1" "length h1 = length h + 3"
    "all1 = Suc (length h)" "shown1 = Suc (Suc (length h))"
    by (auto simp: RunRow_st_eq)
  from assms(2) have h2: "take (length h1) h2 = h1" "all2 = Suc (length h1)"
    "shown2 = Suc (Suc (length h1))"
    by (auto simp: RunRow_st_eq)
  from h1(1) have t1: "take (length h) h1 = h"
    by (metis append_eq_conv_conj)
  have t2: "take (length h) h2 = h"
  proof -
    have "take (length h) h2 = take (length h) (take (length h1) h2)"
      using h1(2) by (simp add: min_def)
    with h2(1) t1 show ?thesis by simp
  qed
  have g1: "array_get h1 (tags run) = array_get h (tags run)"
    using assms(3) t1 by (metis array_get_def nth_take)
  have g2: "array_get h2 (tags run) = array_get h (tags run)"
    using assms(3) t2 by (metis array_get_def nth_take)
  have a1: "map (\<lambda>t. \<lparr>key = key t, value = value t\<rparr>) (array_get h1 all1) =
           map (\<lambda>t. \<lparr>key = key t, value = value t\<rparr>) (array_get h (tags run)) @
           (if (RunRow_isJob repo (pipelineName run) \<and> mode run \<noteq> ''default'') \<or>
               \<not> RunRow_isJob repo (pipelineName run)
            then [\<lparr>key = ''mode'', value = mode run\<rparr>] else [])"
    using assms(1)
    by (auto simp: RunRow_st_eq allTagsWithPinned_st_eq array_get_def nth_append comp_def)
  have a2: "map (\<lambda>t. \<lparr>key = key t, value = value t\<rparr>) (array_get h2 all2) =
           map (\<lambda>t. \<lparr>key = key t, value = value t\<rparr>) (array_get h1 (tags run)) @
           (if (RunRow_isJob repo (pipelineName run) \<and> mode run \<noteq> ''default'') \<or>
               \<not> RunRow_isJob repo (pipelineName run)
            then [\<lparr>key = ''mode'', value = mode run\<rparr>] else [])"
    using assms(2)
    by (auto simp: RunRow_st_eq allTagsWithPinned_st_eq array_get_def nth_append comp_def)
  show ?thesis
    using t1 t2 h2 h1(2-4) g1 g2 a1 a2 by simp
qed

theorem render_toggle_render_frame_witness:
  "RunRow_st sample_keys sample_path None (or_empty None)
       (with_tags (sample_run [] None ''prod'') 0)
       [[\<lparr>key = ''team'', value = ''data'', pinned = None, link = None\<rparr>]] =
     ((2, 3),
      [[\<lparr>key = ''team'', value = ''data'', pinned = None, link = None\<rparr>],
       [\<lparr>key = ''team'', value = ''data'', pinned = None, link = None\<rparr>,
        \<lparr>key = ''mode'', value = ''prod'', pinned = None, link = None\<rparr>],
       [\<lparr>key = ''team'', value = ''data'', pinned = Some True, link = None\<rparr>,
        \<lparr>key = ''mode'', value = ''prod'', pinned = Some True, link = None\<rparr>],
       [\<lparr>key = ''team'', value = ''data'', pinned = Some True, link = None\<rparr>,
        \<lparr>key = ''mode'', value = ''prod'', pinned = Some True, link = None\<rparr>]]) \<and>
   RunRow_st sample_keys sample_path None (onToggleTagPin ''team'' None)
       (with_tags (sample_run [] None ''prod'') 0)
       [[\<lparr>key = ''team'', value = ''data'', pinned = None, link = None\<rparr>],
        [\<lparr>key = ''team'', value = ''data'', pinned = None, link = None\<rparr>,
         \<lparr>key = ''mode'', value = ''prod'', pinned = None, link = None\<rparr>],
        [\<lparr>key = ''team'', value = ''data'', pinned = Some True, link = None\<rparr>,
         \<lparr>key = ''mode'', value = ''prod'', pinned = Some True, link = None\<rparr>],
        [\<lparr>key = ''team'', value = ''data'', pinned = Some True, link = None\<rparr>,
         \<lparr>key = ''mode'', value = ''prod'', pinned = Some True, link = None\<rparr>]] =
     ((5, 6),
      [[\<lparr>key = ''team'', value = ''data'', pinned = None, link = None\<rparr>],
       [\<lparr>key = ''team'', value = ''data'', pinned = None, link = None\<rparr>,
        \<lparr>key = ''mode'', value = ''prod'', pinned = None, link = None\<rparr>],
       [\<lparr>key = ''team'', value = ''data'', pinned = Some True, link = None\<rparr>,
        \<lparr>key = ''mode'', value = ''prod'', pinned = Some True, link = None\<rparr>],
       [\<lparr>key = ''team'', value = ''data'', pinned = Some True, link = None\<rparr>,
        \<lparr>key = ''mode'', value = ''prod'', pinned = Some True, link = None\<rparr>],
       [\<lparr>key = ''team'', value = ''data'', pinned = None, link = None\<rparr>,
        \<lparr>key = ''mode'', value = ''prod'', pinned = None, link = None\<rparr>],
       [\<lparr>key = ''team'', value = ''data'', pinned = Some False, link = None\<rparr>,
        \<lparr>key = ''mode'', value = ''prod'', pinned = Some True, link = None\<rparr>],
       [\<lparr>key = ''mode'', value = ''prod'', pinned = Some True, link = None\<rparr>]]) \<and>
   tags (with_tags (sample_run [] None ''prod'') (0::nat)) <
     length [[\<lparr>key = ''team'', value = ''data'', pinned = None, link = None\<rparr>]]"
proof -
  let ?run = "with_tags (sample_run [] None ''prod'') (0::nat)"
  let ?h = "[[\<lparr>key = ''team'', value = ''data'', pinned = None, link = None\<rparr>]]"
  let ?h1 = "?h @
       [[\<lparr>key = ''team'', value = ''data'', pinned = None, link = None\<rparr>,
        \<lparr>key = ''mode'', value = ''prod'', pinned = None, link = None\<rparr>],
       [\<lparr>key = ''team'', value = ''data'', pinned = Some True, link = None\<rparr>,
        \<lparr>key = ''mode'', value = ''prod'', pinned = Some True, link = None\<rparr>],
       [\<lparr>key = ''team'', value = ''data'', pinned = Some True, link = None\<rparr>,
        \<lparr>key = ''mode'', value = ''prod'', pinned = Some True, link = None\<rparr>]]"
  let ?h2 = "?h1 @
       [[\<lparr>key = ''team'', value = ''data'', pinned = None, link = None\<rparr>,
        \<lparr>key = ''mode'', value = ''prod'', pinned = None, link = None\<rparr>],
       [\<lparr>key = ''team'', value = ''data'', pinned = Some False, link = None\<rparr>,
        \<lparr>key = ''mode'', value = ''prod'', pinned = Some True, link = None\<rparr>],
       [\<lparr>key = ''mode'', value = ''prod'', pinned = Some True, link = None\<rparr>]]"
  have r1: "RunRow_st sample_keys sample_path None (or_empty None) ?run ?h = ((2, 3), ?h1)"
    by (simp add: RunRow_st_def allTagsWithPinned_st_def tagsToShow_st_def array_new_def
          array_push_def array_get_def RunRow_isJob_def targetBackfill_def indexOf_def
          or_empty_def with_tags_def sample_run_def sample_keys_def)
  have r2: "RunRow_st sample_keys sample_path None (onToggleTagPin ''team'' None) ?run ?h1 =
              ((5, 6), ?h2)"
    by (simp add: RunRow_st_def allTagsWithPinned_st_def tagsToShow_st_def array_new_def
          array_push_def array_get_def RunRow_isJob_def targetBackfill_def indexOf_def
          onToggleTagPin_def or_empty_def with_tags_def sample_run_def sample_keys_def)
  have v: "tags ?run < length ?h"
    by (simp add: with_tags_def)
  show ?thesis
    using r1 r2 v render_toggle_render_frame [OF r1 r2 v] by simp
qed

end
